theory Spec2Isabelle
  imports Complex_Main "HOL-Library.Word"
begin

section \<open>Security monitoring and threat detection (security.py)\<close>

text \<open>
  A shallow embedding of the class \<open>SecurityHandler\<close> of \<open>security.py\<close>. The handler's
  attributes and the part of the machine it touches (clock, file system, resource gauges,
  logging and speech sinks, the background loop threads) are the fields of one record that
  every method takes and returns. Library calls keep their Python names.

  Conventions.
  \<^item> A \<open>datetime\<close> is an integer number of microseconds; \<open>isoformat\<close> followed by
    \<open>fromisoformat\<close> gives the value back, so the log stores the value itself.
  \<^item> Every \<open>datetime.now()\<close> reads the clock once: the k-th read of a run returns
    \<open>clock s k\<close>, and \<open>ticks\<close> counts the reads made so far.
  \<^item> A Python float is the real number it denotes (comparisons are then exact); the
    rounding operations used by the entropy loop are parameters (record \<open>platform\<close>),
    for which both exact arithmetic and IEEE 754 binary64 rounding are considered.
  \<^item> An exception is the text \<open>str(e)\<close>, the only thing the code reads from it. Only
    subclasses of \<open>Exception\<close> are modelled.
  \<^item> \<open>log_message\<close> and \<open>speak\<close> (utils.py) are sinks that append to a trace and do
    not fail.
  \<^item> An interval is a Python \<open>int\<close>, a number of seconds. \<open>time.sleep\<close> of it returns
    only when its count of nanoseconds fits 64 bits and it is not negative; otherwise it
    raises.
\<close>

subsection \<open>Data\<close>

type_synonym time = int
type_synonym byte = "8 word"

datatype exn =
    Exception string
  | FileExistsError string
  | ValueError string
  | OverflowError string

datatype node = Directory | RegularFile "byte list" | Symlink string

datatype description =
    DangerousExtension string
  | UnusuallyLarge nat
  | HighEntropy real
  | KnownMalware

record finding =
  ftype :: string
  description :: description

record scan_result =
  file_path :: string
  file_size :: nat
  scan_time :: time
  threats_found :: "finding list"
  is_safe :: bool
  file_hash :: "string option"

datatype details =
    ResourceDetails string real
  | ScanDetails scan_result
  | QuarantineDetails string string time

record threat_entry =
  timestamp :: time
  etype :: string
  details :: details
  severity :: string

datatype message =
    Text string
  | Speaking string
  | SecurityThreat string details
  | MonitoringError exn
  | ProcessScanFailed exn
  | NetworkMonitoringFailed exn
  | ResourceCheckFailed exn
  | HashFailed string exn
  | EntropyFailed string exn
  | ReputationFailed exn
  | ScanCompleted string bool
  | ScanFailed string exn
  | Quarantined string string
  | QuarantineFailed string exn
  | StatusFailed exn

record state =
  is_monitoring :: bool
  threat_log :: "threat_entry list"
  loops :: "int list"
  clock :: "nat \<Rightarrow> time"
  ticks :: nat
  fs :: "string \<Rightarrow> node option"
  cpu_percent :: "exn + real"
  virtual_memory :: "exn + real"
  disk_usage :: "exn + real"
  net_io_counters :: "exn option"
  logged :: "(string \<times> message) list"
  spoken :: "string list"
  slept :: "int list"

text \<open>
  \<open>loops\<close> holds one interval for each thread that was started on
  \<open>_monitoring_loop\<close> and has not left its \<open>while\<close>. The gauges hold what \<open>psutil\<close> would answer now: a percentage, or
  the exception it raises.
\<close>

subsection \<open>Clock and sinks\<close>

definition datetime_now :: "state \<Rightarrow> time \<times> state" where
  "datetime_now s = (clock s (ticks s), s\<lparr>ticks := Suc (ticks s)\<rparr>)"

definition log_message :: "string \<Rightarrow> message \<Rightarrow> state \<Rightarrow> state" where
  "log_message level m s = s\<lparr>logged := logged s @ [(level, m)]\<rparr>"

definition speak :: "string \<Rightarrow> state \<Rightarrow> state" where
  "speak txt s = (log_message ''INFO'' (Speaking txt) s)\<lparr>spoken := spoken s @ [txt]\<rparr>"

text \<open>
  \<open>time.sleep(secs)\<close> for an \<open>int\<close>. CPython first converts the seconds to a signed 64-bit
  count of nanoseconds and raises \<open>OverflowError\<close> when that does not fit, which is so
  from 9223372037 seconds on; it then raises \<open>ValueError\<close> for a negative length.
  Otherwise the thread sleeps, and the trace \<open>slept\<close> records for how long.
\<close>

definition sleep_max :: int where
  "sleep_max = (2 ^ 63 - 1) div 10 ^ 9"

definition sleep :: "int \<Rightarrow> state \<Rightarrow> exn option \<times> state" where
  "sleep secs s =
     (if secs < - sleep_max \<or> sleep_max < secs
      then (Some (OverflowError ''timestamp too large to convert to C _PyTime_t''), s)
      else if secs < 0
      then (Some (ValueError ''sleep length must be non-negative''), s)
      else (None, s\<lparr>slept := slept s @ [secs]\<rparr>))"

subsection \<open>Threat log\<close>

definition high_severity :: "string list" where
  "high_severity =
     [''suspicious_process'', ''malware_detected'', ''unauthorized_access'',
      ''suspicious_network_connection'']"

definition medium_severity :: "string list" where
  "medium_severity = [''high_cpu_usage'', ''high_memory_usage'', ''unusual_file_activity'']"

definition get_threat_severity :: "string \<Rightarrow> string" where
  "get_threat_severity threat_type =
     (if threat_type \<in> set high_severity then ''high''
      else if threat_type \<in> set medium_severity then ''medium''
      else ''low'')"

text \<open>The slice \<open>xs[-n:]\<close> for a positive \<open>n\<close>.\<close>

definition py_last :: "nat \<Rightarrow> 'a list \<Rightarrow> 'a list" where
  "py_last n xs = drop (length xs - n) xs"

definition log_threat :: "string \<Rightarrow> details \<Rightarrow> state \<Rightarrow> state" where
  "log_threat threat_type d s =
     (let (now, s1) = datetime_now s;
          threat_entry = \<lparr>timestamp = now, etype = threat_type, details = d,
                          severity = get_threat_severity threat_type\<rparr>;
          s2 = s1\<lparr>threat_log := threat_log s1 @ [threat_entry]\<rparr>;
          s3 = (if length (threat_log s2) > 1000
                then s2\<lparr>threat_log := py_last 1000 (threat_log s2)\<rparr> else s2);
          s4 = log_message ''WARNING'' (SecurityThreat threat_type d) s3
      in if severity threat_entry = ''high''
         then speak (''Security alert: '' @ threat_type @ '' detected'') s4
         else s4)"

text \<open>A sequence of \<open>log_threat\<close> calls, in order.\<close>

definition log_threats :: "(string \<times> details) list \<Rightarrow> state \<Rightarrow> state" where
  "log_threats calls s = foldl (\<lambda>s' (t, d). log_threat t d s') s calls"

text \<open>The entry that the k-th call of such a sequence builds, started in state \<open>s\<close>.\<close>

definition entry_of :: "state \<Rightarrow> nat \<Rightarrow> string \<times> details \<Rightarrow> threat_entry" where
  "entry_of s k c =
     \<lparr>timestamp = clock s (ticks s + k), etype = fst c, details = snd c,
      severity = get_threat_severity (fst c)\<rparr>"

definition entries_of :: "state \<Rightarrow> (string \<times> details) list \<Rightarrow> threat_entry list" where
  "entries_of s calls = map (\<lambda>(k, c). entry_of s k c) (zip [0..<length calls] calls)"

subsection \<open>Resource check\<close>

definition check_system_resources :: "state \<Rightarrow> state" where
  "check_system_resources s =
     (case cpu_percent s of
        Inl e \<Rightarrow> log_message ''ERROR'' (ResourceCheckFailed e) s
      | Inr cpu \<Rightarrow>
          let s1 = (if cpu > 95
                    then log_threat ''high_system_cpu'' (ResourceDetails ''cpu_percent'' cpu) s
                    else s)
          in case virtual_memory s1 of
               Inl e \<Rightarrow> log_message ''ERROR'' (ResourceCheckFailed e) s1
             | Inr mem \<Rightarrow>
                 let s2 = (if mem > 90
                           then log_threat ''high_system_memory''
                                  (ResourceDetails ''memory_percent'' mem) s1
                           else s1)
                 in case disk_usage s2 of
                      Inl e \<Rightarrow> log_message ''ERROR'' (ResourceCheckFailed e) s2
                    | Inr disk \<Rightarrow>
                        let s3 = (if disk > 95
                                  then log_threat ''low_disk_space''
                                         (ResourceDetails ''disk_percent'' disk) s2
                                  else s2)
                        in case net_io_counters s3 of
                             Some e \<Rightarrow> log_message ''ERROR'' (ResourceCheckFailed e) s3
                           | None \<Rightarrow> s3)"

text \<open>
  The calls to \<open>log_threat\<close> that the readings \<open>c\<close> (cpu), \<open>m\<close> (memory) and \<open>d\<close>
  (disk) trigger in \<open>check_system_resources\<close>, in the order of the source.
\<close>

definition resource_calls :: "real \<Rightarrow> real \<Rightarrow> real \<Rightarrow> (string \<times> details) list" where
  "resource_calls c m d =
     (if 95 < c then [(''high_system_cpu'', ResourceDetails ''cpu_percent'' c)] else []) @
     (if 90 < m then [(''high_system_memory'', ResourceDetails ''memory_percent'' m)] else []) @
     (if 95 < d then [(''low_disk_space'', ResourceDetails ''disk_percent'' d)] else [])"

definition resource_kind :: "threat_entry \<Rightarrow> bool" where
  "resource_kind e \<longleftrightarrow>
     etype e \<in> {''high_system_cpu'', ''high_system_memory'', ''low_disk_space''} \<and>
     severity e = ''low''"

definition grown_by_resource :: "threat_entry set \<Rightarrow> state \<Rightarrow> bool" where
  "grown_by_resource X s \<longleftrightarrow> (\<forall>e \<in> set (threat_log s). e \<in> X \<or> resource_kind e)"

subsection \<open>Example states\<close>

text \<open>A freshly constructed handler on an idle machine with an empty file system.\<close>

definition fresh :: state where
  "fresh = \<lparr>is_monitoring = False, threat_log = [], loops = [],
            clock = (\<lambda>k. int k), ticks = 0, fs = (\<lambda>p. None),
            cpu_percent = Inr 10, virtual_memory = Inr 40, disk_usage = Inr 50,
            net_io_counters = None, logged = [], spoken = [], slept = []\<rparr>"

definition old_entry :: threat_entry where
  "old_entry = \<lparr>timestamp = 0, etype = ''high_cpu_usage'',
                details = ResourceDetails ''cpu_percent'' 99, severity = ''medium''\<rparr>"

subsection \<open>Status\<close>

record security_status =
  monitoring_active :: bool
  recent_threats :: nat
  total_threats_logged :: nat
  last_scan :: time
  system_health :: string
  recommendations :: "string list"

definition hours :: "int \<Rightarrow> time" where
  "hours h = h * 3600 * 1000000"

text \<open>
  The comprehension \<open>[t for t in log if pre(t) and fromisoformat(t['timestamp']) >
  datetime.now() - w]\<close>: the clock is read again for every entry that passes \<open>pre\<close>.
\<close>

fun newer_than :: "(threat_entry \<Rightarrow> bool) \<Rightarrow> time \<Rightarrow> threat_entry list \<Rightarrow> state \<Rightarrow> threat_entry list \<times> state" where
  "newer_than pre w [] s = ([], s)"
| "newer_than pre w (t # ts) s =
     (if pre t
      then (let (now, s1) = datetime_now s;
                (r, s2) = newer_than pre w ts s1
            in (if timestamp t > now - w then t # r else r, s2))
      else newer_than pre w ts s)"

definition get_system_security_status :: "state \<Rightarrow> (exn + security_status) \<times> state" where
  "get_system_security_status s =
     (let (recent, s1) = newer_than (\<lambda>t. True) (hours 24) (threat_log s) s;
          (now, s2) = datetime_now s1;
          status = \<lparr>monitoring_active = is_monitoring s, recent_threats = length recent,
                    total_threats_logged = length (threat_log s), last_scan = now,
                    system_health = ''good'', recommendations = []\<rparr>
      in case cpu_percent s2 of
           Inl e \<Rightarrow> (Inl e, log_message ''ERROR'' (StatusFailed e) s2)
         | Inr cpu \<Rightarrow>
        (case virtual_memory s2 of
           Inl e \<Rightarrow> (Inl e, log_message ''ERROR'' (StatusFailed e) s2)
         | Inr memory \<Rightarrow>
        (case disk_usage s2 of
           Inl e \<Rightarrow> (Inl e, log_message ''ERROR'' (StatusFailed e) s2)
         | Inr disk \<Rightarrow>
             let st1 = (if cpu > 80
                        then status\<lparr>system_health := ''warning'',
                               recommendations := recommendations status @ [''High CPU usage detected'']\<rparr>
                        else status);
                 st2 = (if memory > 85
                        then st1\<lparr>system_health := ''warning'',
                               recommendations := recommendations st1 @ [''High memory usage detected'']\<rparr>
                        else st1);
                 st3 = (if disk > 90
                        then st2\<lparr>system_health := ''critical'',
                               recommendations := recommendations st2 @ [''Low disk space - cleanup recommended'']\<rparr>
                        else st2);
                 (recent_high_threats, s3) =
                    newer_than (\<lambda>t. severity t = ''high'') (hours 1) (threat_log s2) s2;
                 st4 = (if recent_high_threats \<noteq> []
                        then st3\<lparr>system_health := ''critical'',
                               recommendations := recommendations st3 @ [''Recent high-severity threats detected'']\<rparr>
                        else st3)
             in (Inr st4, s3))))"

text \<open>
  The high-severity entries that the status query finds newer than one hour: its second
  comprehension, which runs after one clock read per log entry and one for \<open>last_scan\<close>.
\<close>

definition recent_high :: "state \<Rightarrow> threat_entry list" where
  "recent_high s =
     fst (newer_than (\<lambda>t. severity t = ''high'') (hours 1) (threat_log s)
            (s\<lparr>ticks := ticks s + length (threat_log s) + 1\<rparr>))"

text \<open>A machine with a nearly full disk and two high-severity entries, one of them recent.\<close>

definition alarmed :: state where
  "alarmed = fresh\<lparr>disk_usage := Inr 96, clock := (\<lambda>k. 7200000000),
     threat_log := [\<lparr>timestamp = 7000000000, etype = ''malware_detected'',
                     details = ResourceDetails ''cpu_percent'' 0, severity = ''high''\<rparr>,
                    \<lparr>timestamp = 100, etype = ''unauthorized_access'',
                     details = ResourceDetails ''cpu_percent'' 0, severity = ''high''\<rparr>]\<rparr>"

subsection \<open>Monitoring loop\<close>

definition start_monitoring :: "int \<Rightarrow> state \<Rightarrow> state" where
  "start_monitoring interval s =
     (if is_monitoring s
      then log_message ''INFO'' (Text ''Security monitoring is already running'') s
      else (let s1 = s\<lparr>is_monitoring := True\<rparr>;
                s2 = s1\<lparr>loops := loops s1 @ [interval]\<rparr>;
                s3 = log_message ''INFO'' (Text ''Security monitoring started'') s2
            in speak ''Security monitoring activated'' s3))"

definition stop_monitoring :: "state \<Rightarrow> state" where
  "stop_monitoring s =
     (let s1 = s\<lparr>is_monitoring := False\<rparr>;
          s2 = log_message ''INFO'' (Text ''Security monitoring stopped'') s1
      in speak ''Security monitoring deactivated'' s2)"

text \<open>
  \<open>scan_running_processes\<close> and \<open>monitor_network_connections\<close> are each one \<open>try\<close>
  statement whose handler catches every \<open>Exception\<close> and logs it. What their \<open>try\<close>
  bodies do with \<open>psutil\<close> is a parameter: any computation that returns or raises and
  leaves a state behind. So neither method raises, and neither does
  \<open>check_system_resources\<close> above.
\<close>

type_synonym call = "state \<Rightarrow> exn option \<times> state"

definition scan_running_processes :: "call \<Rightarrow> state \<Rightarrow> state" where
  "scan_running_processes body s =
     (case body s of
        (None, s') \<Rightarrow> s'
      | (Some e, s') \<Rightarrow> log_message ''ERROR'' (ProcessScanFailed e) s')"

definition monitor_network_connections :: "call \<Rightarrow> state \<Rightarrow> state" where
  "monitor_network_connections body s =
     (case body s of
        (None, s') \<Rightarrow> s'
      | (Some e, s') \<Rightarrow> log_message ''ERROR'' (NetworkMonitoringFailed e) s')"

text \<open>
  The \<open>try\<close> block of the loop: the three checks, then \<open>time.sleep(interval)\<close>. Only the
  sleep can raise.
\<close>

definition try_block :: "call \<Rightarrow> call \<Rightarrow> int \<Rightarrow> state \<Rightarrow> exn option \<times> state" where
  "try_block scan net interval s =
     sleep interval
       (monitor_network_connections net (check_system_resources (scan_running_processes scan s)))"

text \<open>
  The whole \<open>try\<close> statement, the body of the \<open>while\<close>. The handler logs the exception
  and calls \<open>time.sleep(interval)\<close> again, outside any \<open>try\<close>: what that call raises
  leaves the statement.
\<close>

definition loop_body :: "call \<Rightarrow> call \<Rightarrow> int \<Rightarrow> state \<Rightarrow> exn option \<times> state" where
  "loop_body scan net interval s =
     (case try_block scan net interval s of
        (None, s') \<Rightarrow> (None, s')
      | (Some e, s') \<Rightarrow> sleep interval (log_message ''ERROR'' (MonitoringError e) s'))"

text \<open>
  One test of \<open>while self.is_monitoring\<close> followed, when it holds, by one pass through
  the body. The result says whether the thread is still in the loop: it is not when the
  test fails, and it is not when an exception leaves the body, which ends
  \<open>_monitoring_loop\<close> and with it the thread.
\<close>

definition loop_cycle :: "call \<Rightarrow> call \<Rightarrow> int \<Rightarrow> state \<Rightarrow> bool \<times> state" where
  "loop_cycle scan net interval s =
     (if \<not> is_monitoring s then (False, s)
      else (case loop_body scan net interval s of
              (None, s') \<Rightarrow> (True, s')
            | (Some e, s') \<Rightarrow> (False, s')))"


text \<open>
  The handler and its loop threads as a transition system. \<open>Cycle j\<close>: the j-th live
  loop thread tests the flag and, if it is set, runs one cycle; a thread that finds the
  flag cleared, or whose cycle ends in an exception, leaves the loop and ends.
\<close>

datatype event = Start int | Stop | Cycle nat

fun step :: "call \<Rightarrow> call \<Rightarrow> state \<Rightarrow> event \<Rightarrow> state" where
  "step scan net s (Start interval) = start_monitoring interval s"
| "step scan net s Stop = stop_monitoring s"
| "step scan net s (Cycle j) =
     (if j < length (loops s)
      then (case loop_cycle scan net (loops s ! j) s of
              (True, s') \<Rightarrow> s'
            | (False, s') \<Rightarrow> s'\<lparr>loops := take j (loops s') @ drop (Suc j) (loops s')\<rparr>)
      else s)"

definition run :: "call \<Rightarrow> call \<Rightarrow> event list \<Rightarrow> state \<Rightarrow> state" where
  "run scan net events s = foldl (step scan net) s events"


definition quiet_scan :: "nat \<Rightarrow> call" where
  "quiet_scan k s = (None, s)"


subsection \<open>Platform\<close>

text \<open>
  What the library computes and this development does not: the digest of
  \<open>hashlib.new(algorithm)\<close>, the four floating-point operations of the entropy loop
  (true division of two ints, \<open>math.log2\<close>, multiplication, subtraction), the text of
  \<open>strftime('%Y%m%d_%H%M%S')\<close>, and the size the system reports for a directory.
\<close>

record platform =
  hexdigest :: "string \<Rightarrow> byte list \<Rightarrow> string"
  fl_div :: "nat \<Rightarrow> nat \<Rightarrow> real"
  fl_log2 :: "real \<Rightarrow> real"
  fl_mul :: "real \<Rightarrow> real \<Rightarrow> real"
  fl_sub :: "real \<Rightarrow> real \<Rightarrow> real"
  strftime :: "time \<Rightarrow> string"
  st_size_dir :: "string \<Rightarrow> nat"

subsection \<open>Paths and the file system\<close>

text \<open>
  Paths are POSIX strings. The file system is the table of its directory entries: it maps
  the text of a path to the node entered under it, which is a directory, a regular file
  with its content, or a symbolic link with its target. The table is keyed by the text as
  written: it does not identify two spellings of one path (\<open>a//b\<close>, \<open>a/./b\<close>, an absolute
  and a relative one), and a link is followed at the end of a path only, not in the
  middle of it. What is proved below about a move is therefore stated for the paths the
  code itself uses, never for every other name a file may have.
  \<open>split\<close>, \<open>basename\<close>, \<open>dirname\<close>, \<open>join\<close> and \<open>splitext\<close> follow \<open>posixpath\<close>;
  \<open>lower\<close> is \<open>str.lower\<close> on ASCII.
\<close>

definition DATA_DIR :: string where
  "DATA_DIR = ''data''"

definition rstrip_slash :: "string \<Rightarrow> string" where
  "rstrip_slash p = rev (dropWhile (\<lambda>c. c = CHR ''/'') (rev p))"

definition basename :: "string \<Rightarrow> string" where
  "basename p = rev (takeWhile (\<lambda>c. c \<noteq> CHR ''/'') (rev p))"

definition split :: "string \<Rightarrow> string \<times> string" where
  "split p =
     (let tail = basename p;
          head = take (length p - length tail) p
      in (if rstrip_slash head \<noteq> [] then rstrip_slash head else head, tail))"

definition dirname :: "string \<Rightarrow> string" where
  "dirname p = fst (split p)"

definition join :: "string \<Rightarrow> string \<Rightarrow> string" where
  "join a b =
     (if b \<noteq> [] \<and> hd b = CHR ''/'' then b
      else if a = [] \<or> last a = CHR ''/'' then a @ b
      else a @ ''/'' @ b)"

text \<open>
  \<open>os.stat\<close> follows symbolic links: a relative target is read from the directory of the
  link, and after 40 links the system gives up (\<open>ELOOP\<close>), which \<open>os.path.exists\<close> and
  \<open>os.path.isdir\<close> report as \<open>False\<close>. \<open>os.path.lexists\<close> and \<open>os.path.islink\<close> look at
  the entry itself.
\<close>

primrec follow :: "nat \<Rightarrow> (string \<Rightarrow> node option) \<Rightarrow> string \<Rightarrow> node option" where
  "follow 0 f p = (case f p of Some (Symlink t) \<Rightarrow> None | r \<Rightarrow> r)"
| "follow (Suc n) f p =
     (case f p of Some (Symlink t) \<Rightarrow> follow n f (join (dirname p) t) | r \<Rightarrow> r)"

definition stat :: "state \<Rightarrow> string \<Rightarrow> node option" where
  "stat s p = follow 40 (fs s) p"

definition exists :: "state \<Rightarrow> string \<Rightarrow> bool" where
  "exists s p \<longleftrightarrow> stat s p \<noteq> None"

definition isdir :: "state \<Rightarrow> string \<Rightarrow> bool" where
  "isdir s p \<longleftrightarrow> stat s p = Some Directory"

definition lexists :: "state \<Rightarrow> string \<Rightarrow> bool" where
  "lexists s p \<longleftrightarrow> fs s p \<noteq> None"

definition islink :: "state \<Rightarrow> string \<Rightarrow> bool" where
  "islink s p \<longleftrightarrow> (case fs s p of Some (Symlink t) \<Rightarrow> True | _ \<Rightarrow> False)"

definition lower_char :: "char \<Rightarrow> char" where
  "lower_char c =
     (case map_of (zip ''ABCDEFGHIJKLMNOPQRSTUVWXYZ'' ''abcdefghijklmnopqrstuvwxyz'') c of
        Some l \<Rightarrow> l
      | None \<Rightarrow> c)"

definition lower :: "string \<Rightarrow> string" where
  "lower p = map lower_char p"

definition splitext :: "string \<Rightarrow> string \<times> string" where
  "splitext p =
     (let name = basename p;
          ext = rev (takeWhile (\<lambda>c. c \<noteq> CHR ''.'') (rev name));
          stem = take (length name - length ext - 1) name
      in if CHR ''.'' \<in> set name \<and> dropWhile (\<lambda>c. c = CHR ''.'') stem \<noteq> []
         then (take (length p - length ext - 1) p, CHR ''.'' # ext)
         else (p, []))"

text \<open>
  \<open>os.mkdir\<close> and \<open>os.makedirs\<close>. \<open>mkdir\<close> fails on any existing entry, a dangling
  link included. The recursion of \<open>makedirs\<close> is on the head of the path, which is shorter
  than the path.
\<close>

lemma split_shorter: "length (fst (split p)) + length (snd (split p)) \<le> length p"
proof -
  have a: "length (rstrip_slash h) \<le> length h" for h
    by (simp add: rstrip_slash_def length_dropWhile_le [of _ "rev h", simplified])
  have b: "length (basename p) \<le> length p"
    by (simp add: basename_def length_takeWhile_le [of _ "rev p", simplified])
  show ?thesis
    using a [of "take (length p - length (basename p)) p"] b
    by (auto simp add: split_def Let_def)
qed

definition mkdir :: "string \<Rightarrow> state \<Rightarrow> exn option \<times> state" where
  "mkdir p s =
     (if lexists s p then (Some (FileExistsError p), s)
      else if dirname p \<noteq> [] \<and> dirname p \<noteq> ''/'' \<and> \<not> isdir s (dirname p)
      then (Some (Exception (''No such directory: '' @ dirname p)), s)
      else (None, s\<lparr>fs := (fs s)(p \<mapsto> Directory)\<rparr>))"

function makedirs :: "string \<Rightarrow> state \<Rightarrow> exn option \<times> state" where
  "makedirs name s =
     (let ht = (if snd (split name) = [] then split (fst (split name)) else split name);
          head = fst ht; tail = snd ht
      in if head \<noteq> [] \<and> tail \<noteq> [] \<and> \<not> exists s head
         then (case makedirs head s of
                 (Some (Exception m), s1) \<Rightarrow> (Some (Exception m), s1)
               | (_, s1) \<Rightarrow> if tail = ''.'' then (None, s1) else mkdir name s1)
         else mkdir name s)"
  by pat_completeness auto
termination
proof (relation "measure (\<lambda>(name, s). length name)")
  show "wf (measure (\<lambda>(name, s). length name))" by simp
next
  fix name :: string and s :: state and ht head tail
  assume ht: "ht = (if snd (split name) = [] then split (fst (split name)) else split name)"
    and h: "head = fst ht" and t: "tail = snd ht"
    and c: "head \<noteq> [] \<and> tail \<noteq> [] \<and> \<not> exists s head"
  have pos: "0 < length (snd ht)" using c t by simp
  have "length head < length name"
  proof (cases "snd (split name) = []")
    case True
    then have "length (fst ht) + length (snd ht) \<le> length (fst (split name))"
      using split_shorter [of "fst (split name)"] ht by simp
    moreover have "length (fst (split name)) \<le> length name"
      using split_shorter [of name] by simp
    ultimately show ?thesis unfolding h using pos by linarith
  next
    case False
    then have "ht = split name" using ht by simp
    then have "length head + length (snd (split name)) \<le> length name"
      "0 < length (snd (split name))"
      using split_shorter [of name] h pos by simp_all
    then show ?thesis by linarith
  qed
  then show "((head, s), (name, s)) \<in> measure (\<lambda>(name, s). length name)" by simp
qed

text \<open>
  \<open>shutil.move\<close>: a destination that is an existing directory receives the source
  inside it; otherwise the source is renamed, which needs the destination's directory to
  exist, replaces a regular file or a link, and carries a directory's whole subtree.
  \<open>os.rename\<close> moves the entry: a source that is a symbolic link is moved as a link, and
  the file it points to stays where it is.
\<close>

definition under :: "string \<Rightarrow> string \<Rightarrow> bool" where
  "under d p \<longleftrightarrow> p = d \<or> take (Suc (length d)) p = d @ ''/''"

definition rename :: "string \<Rightarrow> string \<Rightarrow> (string \<Rightarrow> node option) \<Rightarrow> (string \<Rightarrow> node option)" where
  "rename src dst f =
     (case f src of
        Some Directory \<Rightarrow>
          (\<lambda>p. if under dst p then f (src @ drop (length dst) p)
               else if under src p then None else f p)
      | _ \<Rightarrow> (f(src := None))(dst := f src))"

definition shutil_move :: "string \<Rightarrow> string \<Rightarrow> state \<Rightarrow> exn option \<times> state" where
  "shutil_move src dst s =
     (let real_dst = (if isdir s dst then join dst (basename (rstrip_slash src)) else dst)
      in if isdir s dst \<and> src = dst then (None, s)
         else if isdir s dst \<and> exists s real_dst
         then (Some (Exception (''Destination path already exists: '' @ real_dst)), s)
         else if \<not> lexists s src
         then (Some (Exception (''No such file or directory: '' @ src)), s)
         else if real_dst = src then (None, s)
         else if dirname real_dst \<noteq> [] \<and> dirname real_dst \<noteq> ''/'' \<and> \<not> isdir s (dirname real_dst)
         then (Some (Exception (''No such directory: '' @ dirname real_dst)), s)
         else if fs s src = Some Directory \<and> (under src real_dst \<or> lexists s real_dst)
         then (Some (Exception (''Cannot move a directory: '' @ src)), s)
         else (None, s\<lparr>fs := rename src real_dst (fs s)\<rparr>))"

subsection \<open>File scanner\<close>

text \<open>
  \<open>os.path.getsize\<close> and \<open>open(path, 'rb')\<close> on the file system above, both through
  links: a directory has a size and cannot be opened. \<open>calculate_file_hash\<close> feeds the content to the digest in
  blocks of 8192 bytes, which gives the digest of the whole content.
\<close>

definition getsize :: "platform \<Rightarrow> state \<Rightarrow> string \<Rightarrow> exn + nat" where
  "getsize P s p =
     (case stat s p of
        Some Directory \<Rightarrow> Inr (st_size_dir P p)
      | Some (RegularFile c) \<Rightarrow> Inr (length c)
      | _ \<Rightarrow> Inl (Exception (''No such file or directory: '' @ p)))"

definition open_rb :: "state \<Rightarrow> string \<Rightarrow> exn + byte list" where
  "open_rb s p =
     (case stat s p of
        Some Directory \<Rightarrow> Inl (Exception (''Is a directory: '' @ p))
      | Some (RegularFile c) \<Rightarrow> Inr c
      | _ \<Rightarrow> Inl (Exception (''No such file or directory: '' @ p)))"

definition calculate_file_hash :: "platform \<Rightarrow> string \<Rightarrow> state \<Rightarrow> string option \<times> state" where
  "calculate_file_hash P path s =
     (case open_rb s path of
        Inl e \<Rightarrow> (None, log_message ''ERROR'' (HashFailed path e) s)
      | Inr c \<Rightarrow> (Some (hexdigest P ''sha256'' c), s))"

text \<open>
  \<open>Counter\<close> as an association list in insertion order, which is the order of
  \<open>byte_counts.values()\<close>; \<open>read_blocks\<close> is the \<open>while True\<close> loop that reads
  \<open>block_size\<close> bytes at a time and stops at the first empty read.
\<close>

fun bump :: "byte \<Rightarrow> (byte \<times> nat) list \<Rightarrow> (byte \<times> nat) list" where
  "bump b [] = [(b, 1)]"
| "bump b ((k, n) # kvs) = (if k = b then (k, Suc n) # kvs else (k, n) # bump b kvs)"

definition count_byte :: "(byte \<times> nat) list \<times> nat \<Rightarrow> byte \<Rightarrow> (byte \<times> nat) list \<times> nat" where
  "count_byte acc b = (bump b (fst acc), Suc (snd acc))"

function read_blocks :: "nat \<Rightarrow> byte list \<Rightarrow> (byte \<times> nat) list \<times> nat \<Rightarrow> (byte \<times> nat) list \<times> nat" where
  "read_blocks block_size rest acc =
     (let chunk = take block_size rest
      in if chunk = [] then acc
         else read_blocks block_size (drop block_size rest) (foldl count_byte acc chunk))"
  by pat_completeness auto
termination
  by (relation "measure (\<lambda>(block_size, rest, acc). length rest)") auto

definition entropy_step :: "platform \<Rightarrow> nat \<Rightarrow> real \<Rightarrow> nat \<Rightarrow> real" where
  "entropy_step P total_bytes entropy count =
     (let probability = fl_div P count total_bytes
      in if probability > 0
         then fl_sub P entropy (fl_mul P probability (fl_log2 P probability))
         else entropy)"

definition entropy_of :: "platform \<Rightarrow> nat \<Rightarrow> byte list \<Rightarrow> real" where
  "entropy_of P block_size c =
     (let acc = read_blocks block_size c ([], 0);
          byte_counts = fst acc; total_bytes = snd acc
      in if total_bytes = 0 then 0
         else foldl (entropy_step P total_bytes) 0 (map snd byte_counts))"

definition calculate_file_entropy :: "platform \<Rightarrow> string \<Rightarrow> nat \<Rightarrow> state \<Rightarrow> real \<times> state" where
  "calculate_file_entropy P path block_size s =
     (case open_rb s path of
        Inl e \<Rightarrow> (0, log_message ''ERROR'' (EntropyFailed path e) s)
      | Inr c \<Rightarrow> (entropy_of P block_size c, s))"

definition known_bad_hashes :: "string list" where
  "known_bad_hashes = [''44d88612fea8a8f36de82e1278abb02f'']"

definition check_hash_reputation :: "string option \<Rightarrow> state \<Rightarrow> bool \<times> state" where
  "check_hash_reputation hash s =
     (case hash of
        None \<Rightarrow>
          (False, log_message ''ERROR''
                    (ReputationFailed (Exception ''NoneType object has no attribute lower'')) s)
      | Some h \<Rightarrow> (lower h \<in> set known_bad_hashes, s))"

definition suspicious_extensions :: "string list" where
  "suspicious_extensions =
     [''.exe'', ''.scr'', ''.bat'', ''.cmd'', ''.pif'', ''.com'', ''.vbs'', ''.js'']"

definition add_threat :: "string \<Rightarrow> description \<Rightarrow> scan_result \<Rightarrow> scan_result" where
  "add_threat t d r = r\<lparr>threats_found := threats_found r @ [\<lparr>ftype = t, description = d\<rparr>]\<rparr>"

definition scan_file_for_threats :: "platform \<Rightarrow> string \<Rightarrow> state \<Rightarrow> (string + scan_result) \<times> state" where
  "scan_file_for_threats P path s =
     (if \<not> exists s path then (Inl ''File not found'', s)
      else case getsize P s path of
        Inl e \<Rightarrow>
          (Inl (case e of Exception m \<Rightarrow> m | FileExistsError m \<Rightarrow> m),
           log_message ''ERROR'' (ScanFailed path e) s)
      | Inr sz \<Rightarrow>
          (let (now, s1) = datetime_now s;
               r0 = \<lparr>file_path = path, file_size = sz, scan_time = now,
                     threats_found = [], is_safe = True, file_hash = None\<rparr>;
               (h, s2) = calculate_file_hash P path s1;
               r1 = r0\<lparr>file_hash := h\<rparr>;
               file_ext = lower (snd (splitext path));
               r2 = (if file_ext \<in> set suspicious_extensions
                     then add_threat ''suspicious_extension'' (DangerousExtension file_ext) r1
                     else r1);
               r3 = (if file_size r2 > 100 * 1024 * 1024
                     then add_threat ''large_file_size'' (UnusuallyLarge (file_size r2)) r2
                     else r2);
               (entropy, s3) = calculate_file_entropy P path 1024 s2;
               r4 = (if entropy > 7.5
                     then add_threat ''high_entropy'' (HighEntropy entropy) r3
                     else r3);
               (bad, s4) = check_hash_reputation (file_hash r4) s3;
               r5 = (if bad then add_threat ''known_malware_hash'' KnownMalware r4 else r4);
               result = r5\<lparr>is_safe := (length (threats_found r5) = 0)\<rparr>;
               s5 = (if \<not> is_safe result
                     then log_threat ''file_threat_detected'' (ScanDetails result) s4
                     else s4);
               s6 = log_message ''INFO'' (ScanCompleted path (is_safe result)) s5
           in (Inr result, s6)))"

subsection \<open>Quarantine\<close>

definition quarantine_file :: "platform \<Rightarrow> string \<Rightarrow> state \<Rightarrow> bool \<times> state" where
  "quarantine_file P path s =
     (if \<not> exists s path then (False, s)
      else
        (let quarantine_dir = join DATA_DIR ''quarantine'';
             (made, s1) = (if \<not> exists s quarantine_dir then makedirs quarantine_dir s
                           else (None, s))
         in case made of
              Some e \<Rightarrow> (False, log_message ''ERROR'' (QuarantineFailed path e) s1)
            | None \<Rightarrow>
                (let filename = basename path;
                     (now, s2) = datetime_now s1;
                     quarantine_filename = strftime P now @ ''_'' @ filename;
                     quarantine_path = join quarantine_dir quarantine_filename
                 in case shutil_move path quarantine_path s2 of
                      (Some e, s3) \<Rightarrow> (False, log_message ''ERROR'' (QuarantineFailed path e) s3)
                    | (None, s3) \<Rightarrow>
                        (let (now', s4) = datetime_now s3;
                             quarantine_info = QuarantineDetails path quarantine_path now';
                             s5 = log_threat ''file_quarantined'' quarantine_info s4;
                             s6 = log_message ''INFO'' (Quarantined path quarantine_path) s5
                         in (True, speak (''Suspicious file quarantined: '' @ filename) s6)))))"

declare makedirs.simps [simp del] read_blocks.simps [simp del]

text \<open>
  The destination that \<open>quarantine_file\<close> builds when it is called in state \<open>s\<close>, and
  the path at which \<open>shutil.move\<close> then puts the file.
\<close>

definition quarantine_path :: "platform \<Rightarrow> state \<Rightarrow> string \<Rightarrow> string" where
  "quarantine_path P s path =
     join (join DATA_DIR ''quarantine'') (strftime P (clock s (ticks s)) @ ''_'' @ basename path)"


text \<open>
  A stand-in platform: its digest is the placeholder entry of the known-bad set in upper
  case, and its arithmetic gives 7.9 for a file of one repeated byte. Five file systems:
  one file in a directory; the same with a regular file in the place of the data
  directory; a 5 MiB file of one repeated byte; one file, and a directory that already
  has the name the quarantine will build for it; a file and a relative link to it.
\<close>

definition demo :: platform where
  "demo = \<lparr>hexdigest = (\<lambda>alg c. ''44D88612FEA8A8F36DE82E1278ABB02F''),
           fl_div = (\<lambda>a b. 1), fl_log2 = (\<lambda>x. - 79 / 10),
           fl_mul = (\<lambda>x y. x * y), fl_sub = (\<lambda>x y. x - y),
           strftime = (\<lambda>t. ''20240101_120000''), st_size_dir = (\<lambda>p. 4096)\<rparr>"

definition disk1 :: state where
  "disk1 = fresh\<lparr>fs := [''in/a.EXE'' \<mapsto> RegularFile [1,2,3], ''in'' \<mapsto> Directory]\<rparr>"

definition blocked :: state where
  "blocked = fresh\<lparr>fs := [''in/a.EXE'' \<mapsto> RegularFile [1, 2, 3], ''in'' \<mapsto> Directory,
                           ''data'' \<mapsto> RegularFile []]\<rparr>"



definition packed :: state where
  "packed = fresh\<lparr>fs := [''in/setup.EXE'' \<mapsto> RegularFile (replicate (5 * 1024 * 1024) 77),
                          ''in'' \<mapsto> Directory]\<rparr>"

subsection \<open>Entropy with exact arithmetic\<close>


definition byte_counts :: "byte list \<Rightarrow> (byte \<times> nat) list" where
  "byte_counts c = fst (foldl count_byte ([], 0) c)"

subsection \<open>Entropy with binary64 arithmetic\<close>

text \<open>
  A Python float is an IEEE 754 binary64 number, and \<open>rnd\<close> is its rounding: to the
  nearest number with a significand of 53 bits, ties to the even one. The exponent range
  is left unbounded, as the values of the entropy loop stay far from overflow and from the
  subnormal numbers. A platform is \<open>ieee\<close> when its division of two ints, its
  multiplication and its subtraction are the correctly rounded ones, and its \<open>log2\<close> gives
  nothing positive on arguments up to 1. \<open>binary64\<close> is the one whose \<open>log2\<close> is the correctly
  rounded logarithm; \<open>reals\<close> is the platform that does not round at all.
\<close>

definition rne :: "real \<Rightarrow> int" where
  "rne y =
     (let f = \<lfloor>y\<rfloor>
      in if y - of_int f < 1 / 2 then f
         else if 1 / 2 < y - of_int f then f + 1
         else if even f then f else f + 1)"

definition rnd :: "real \<Rightarrow> real" where
  "rnd x =
     (if x = 0 then 0
      else (let u = 2 powr of_int (\<lfloor>log 2 \<bar>x\<bar>\<rfloor> - 52)
            in sgn x * of_int (rne (\<bar>x\<bar> / u)) * u))"







section \<open>Properties\<close>

subsection \<open>Threat log\<close>

lemma py_last_absorb: "py_last n (py_last n xs @ ys) = py_last n (xs @ ys)"
  by (cases "length xs \<le> n") (simp_all add: py_last_def add.commute)

lemma length_py_last: "length (py_last n xs) = min n (length xs)"
  by (simp add: py_last_def)

lemma log_threat_log:
  "threat_log (log_threat t d s) = py_last 1000 (threat_log s @ [entry_of s 0 (t, d)])"
  by (simp add: log_threat_def datetime_now_def log_message_def speak_def entry_of_def
      py_last_def Let_def)

lemma log_threat_clock: "clock (log_threat t d s) = clock s"
  by (simp add: log_threat_def datetime_now_def log_message_def speak_def Let_def)

lemma log_threat_ticks: "ticks (log_threat t d s) = Suc (ticks s)"
  by (simp add: log_threat_def datetime_now_def log_message_def speak_def Let_def)

lemma log_threats_snoc: "log_threats (calls @ [c]) s = log_threat (fst c) (snd c) (log_threats calls s)"
  by (simp add: log_threats_def split: prod.split)

lemma log_threats_clock: "clock (log_threats calls s) = clock s"
  by (induction calls rule: rev_induct) (simp_all add: log_threats_snoc log_threat_clock, simp add: log_threats_def)

lemma log_threats_ticks: "ticks (log_threats calls s) = ticks s + length calls"
  by (induction calls rule: rev_induct) (simp_all add: log_threats_snoc log_threat_ticks, simp add: log_threats_def)

lemma entries_of_snoc:
  "entries_of s (calls @ [c]) = entries_of s calls @ [entry_of s (length calls) c]"
  by (simp add: entries_of_def)

lemma entry_of_shift:
  "entry_of (log_threats calls s) 0 c = entry_of s (length calls) c"
  by (simp add: entry_of_def log_threats_clock log_threats_ticks)

lemma log_threats_log:
  "calls \<noteq> [] \<Longrightarrow>
   threat_log (log_threats calls s) = py_last 1000 (threat_log s @ entries_of s calls)"
proof (induction calls rule: rev_induct)
  case Nil
  then show ?case by simp
next
  case (snoc c calls)
  show ?case
  proof (cases "calls = []")
    case True
    then show ?thesis
      by (simp add: log_threats_def log_threat_log entries_of_def split: prod.split)
  next
    case False
    with snoc.IH have "threat_log (log_threats calls s) = py_last 1000 (threat_log s @ entries_of s calls)"
      by simp
    then show ?thesis
      by (simp add: log_threats_snoc log_threat_log entry_of_shift entries_of_snoc
          py_last_absorb)
  qed
qed

lemma log_threat_fields [simp]:
  "is_monitoring (log_threat t d s) = is_monitoring s"
  "loops (log_threat t d s) = loops s"
  "fs (log_threat t d s) = fs s"
  "cpu_percent (log_threat t d s) = cpu_percent s"
  "virtual_memory (log_threat t d s) = virtual_memory s"
  "disk_usage (log_threat t d s) = disk_usage s"
  "net_io_counters (log_threat t d s) = net_io_counters s"
  "slept (log_threat t d s) = slept s"
  by (simp_all add: log_threat_def datetime_now_def log_message_def speak_def Let_def)

lemma log_message_fields [simp]:
  "is_monitoring (log_message l m s) = is_monitoring s"
  "threat_log (log_message l m s) = threat_log s"
  "loops (log_message l m s) = loops s"
  "clock (log_message l m s) = clock s"
  "ticks (log_message l m s) = ticks s"
  "fs (log_message l m s) = fs s"
  "cpu_percent (log_message l m s) = cpu_percent s"
  "virtual_memory (log_message l m s) = virtual_memory s"
  "disk_usage (log_message l m s) = disk_usage s"
  "net_io_counters (log_message l m s) = net_io_counters s"
  "spoken (log_message l m s) = spoken s"
  "slept (log_message l m s) = slept s"
  "logged (log_message l m s) = logged s @ [(l, m)]"
  by (simp_all add: log_message_def)

lemma log_threat_spoken:
  "spoken (log_threat t d s) =
     (if get_threat_severity t = ''high'' then spoken s @ [''Security alert: '' @ t @ '' detected'']
      else spoken s)"
  by (simp add: log_threat_def datetime_now_def log_message_def speak_def Let_def)

lemma set_py_last: "set (py_last n xs) \<subseteq> set xs"
  by (simp add: py_last_def set_drop_subset)

lemma last_py_last: "0 < n \<Longrightarrow> xs \<noteq> [] \<Longrightarrow> last (py_last n xs) = last xs"
  by (simp add: py_last_def)

lemma log_threat_last: "last (threat_log (log_threat t d s)) = entry_of s 0 (t, d)"
  by (simp add: log_threat_log last_py_last)

lemma log_threat_nonempty: "threat_log (log_threat t d s) \<noteq> []"
  by (simp add: log_threat_log py_last_def)

lemma log_threat_members:
  "e \<in> set (threat_log (log_threat t d s)) \<Longrightarrow> e \<in> set (threat_log s) \<or> e = entry_of s 0 (t, d)"
  using set_py_last [of 1000 "threat_log s @ [entry_of s 0 (t, d)]"]
  by (auto simp: log_threat_log)

text \<open>
  C1. After any non-empty sequence of \<open>log_threat\<close> calls, whatever the log held before,
  the log has at most 1000 entries, and it is the last 1000 of the old entries followed by
  the new ones in call order: what is dropped is dropped from the front.
\<close>

theorem log_threat_capacity_fifo:
  assumes "calls \<noteq> []"
  shows "length (threat_log (log_threats calls s)) \<le> 1000 \<and>
         threat_log (log_threats calls s) =
           drop (length (threat_log s) + length calls - 1000) (threat_log s @ entries_of s calls)"
proof -
  have eq: "threat_log (log_threats calls s) = py_last 1000 (threat_log s @ entries_of s calls)"
    using assms by (rule log_threats_log)
  have len: "length (entries_of s calls) = length calls"
    by (simp add: entries_of_def)
  show ?thesis
    unfolding eq by (simp add: py_last_def len)
qed

theorem log_threat_capacity_fifo_witness:
  "[(''high_system_cpu'', ResourceDetails ''cpu_percent'' 97),
    (''low_disk_space'', ResourceDetails ''disk_percent'' 98)] \<noteq> [] \<and>
   threat_log (log_threats [(''high_system_cpu'', ResourceDetails ''cpu_percent'' 97),
                            (''low_disk_space'', ResourceDetails ''disk_percent'' 98)]
                 (fresh\<lparr>threat_log := replicate 1000 old_entry\<rparr>)) =
     replicate 998 old_entry @
     [\<lparr>timestamp = 0, etype = ''high_system_cpu'',
       details = ResourceDetails ''cpu_percent'' 97, severity = ''low''\<rparr>,
      \<lparr>timestamp = 1, etype = ''low_disk_space'',
       details = ResourceDetails ''disk_percent'' 98, severity = ''low''\<rparr>]"
  using log_threat_capacity_fifo
    [of "[(''high_system_cpu'', ResourceDetails ''cpu_percent'' 97),
          (''low_disk_space'', ResourceDetails ''disk_percent'' 98)]"
        "fresh\<lparr>threat_log := replicate 1000 old_entry\<rparr>"]
  by (simp add: entries_of_def entry_of_def fresh_def get_threat_severity_def
      high_severity_def medium_severity_def upt_rec)

subsection \<open>Severity\<close>

text \<open>
  C4. \<open>get_threat_severity\<close> is a function of the kind alone, defined on every string:
  the four kinds of the high table give high, the three of the medium table give medium,
  and every other string gives low.
\<close>

theorem get_threat_severity_table:
  "get_threat_severity ''suspicious_process'' = ''high'' \<and>
   get_threat_severity ''malware_detected'' = ''high'' \<and>
   get_threat_severity ''unauthorized_access'' = ''high'' \<and>
   get_threat_severity ''suspicious_network_connection'' = ''high'' \<and>
   get_threat_severity ''high_cpu_usage'' = ''medium'' \<and>
   get_threat_severity ''high_memory_usage'' = ''medium'' \<and>
   get_threat_severity ''unusual_file_activity'' = ''medium'' \<and>
   (k \<notin> {''suspicious_process'', ''malware_detected'', ''unauthorized_access'',
          ''suspicious_network_connection'', ''high_cpu_usage'', ''high_memory_usage'',
          ''unusual_file_activity''} \<longrightarrow> get_threat_severity k = ''low'')"
  by (simp add: get_threat_severity_def high_severity_def medium_severity_def)

theorem get_threat_severity_table_witness:
  "''file_quarantined'' \<notin> {''suspicious_process'', ''malware_detected'', ''unauthorized_access'',
          ''suspicious_network_connection'', ''high_cpu_usage'', ''high_memory_usage'',
          ''unusual_file_activity''} \<and> get_threat_severity ''file_quarantined'' = ''low''"
  using get_threat_severity_table [of "''file_quarantined''"]
  by simp

subsection \<open>Resource check\<close>

lemma py_last_keeps: "length ys \<le> n \<Longrightarrow> set ys \<subseteq> set (py_last n (xs @ ys))"
  by (simp add: py_last_def)

lemma log_threat_speak_low:
  "get_threat_severity t \<noteq> ''high'' \<Longrightarrow> spoken (log_threat t d s) = spoken s"
  by (simp add: log_threat_spoken)

lemma resource_kinds_low:
  "get_threat_severity ''high_system_cpu'' = ''low''"
  "get_threat_severity ''high_system_memory'' = ''low''"
  "get_threat_severity ''low_disk_space'' = ''low''"
  by (simp_all add: get_threat_severity_def high_severity_def medium_severity_def)

lemma check_system_resources_spoken: "spoken (check_system_resources s) = spoken s"
  by (simp add: check_system_resources_def Let_def log_threat_spoken resource_kinds_low
      split: sum.split option.split)




lemma grown_log_threat:
  assumes "t \<in> {''high_system_cpu'', ''high_system_memory'', ''low_disk_space''}"
    and "grown_by_resource X s"
  shows "grown_by_resource X (log_threat t d s)"
  unfolding grown_by_resource_def
proof
  fix e assume "e \<in> set (threat_log (log_threat t d s))"
  then consider "e \<in> set (threat_log s)" | "e = entry_of s 0 (t, d)"
    using log_threat_members by blast
  then show "e \<in> X \<or> resource_kind e"
  proof cases
    case 1 with assms(2) show ?thesis by (auto simp: grown_by_resource_def)
  next
    case 2
    with assms(1) show ?thesis
      by (auto simp: resource_kind_def entry_of_def resource_kinds_low)
  qed
qed

lemma grown_log_message: "grown_by_resource X s \<Longrightarrow> grown_by_resource X (log_message l m s)"
  by (simp add: grown_by_resource_def)

lemma check_system_resources_grown:
  "grown_by_resource (set (threat_log s)) (check_system_resources s)"
proof -
  have 0: "grown_by_resource (set (threat_log s)) s" by (simp add: grown_by_resource_def)
  show ?thesis
    unfolding check_system_resources_def Let_def
    by (auto split: sum.split option.split intro!: grown_log_threat grown_log_message 0)
qed



lemma check_system_resources_calls:
  assumes "cpu_percent s = Inr c" "virtual_memory s = Inr m" "disk_usage s = Inr d"
  shows "threat_log (check_system_resources s) = threat_log (log_threats (resource_calls c m d) s)"
  using assms
  by (simp add: check_system_resources_def Let_def resource_calls_def log_threats_def
      split: option.split)

text \<open>
  C10. The three kinds that \<open>check_system_resources\<close> logs are in neither severity
  table, so they are classified low; the check never speaks, whatever the gauges answer or
  raise; every entry it leaves in the log is an old one or a low entry of one of the three
  kinds; and when the three gauges answer, the log is the one that the triggered
  \<open>log_threat\<close> calls produce.
\<close>

theorem resource_threats_are_low:
  "get_threat_severity ''high_system_cpu'' = ''low'' \<and>
   get_threat_severity ''high_system_memory'' = ''low'' \<and>
   get_threat_severity ''low_disk_space'' = ''low'' \<and>
   spoken (check_system_resources s) = spoken s \<and>
   (\<forall>e \<in> set (threat_log (check_system_resources s)).
      e \<in> set (threat_log s) \<or>
      etype e \<in> {''high_system_cpu'', ''high_system_memory'', ''low_disk_space''} \<and>
      severity e = ''low'') \<and>
   (cpu_percent s = Inr c \<and> virtual_memory s = Inr m \<and> disk_usage s = Inr d \<longrightarrow>
      threat_log (check_system_resources s) = threat_log (log_threats (resource_calls c m d) s))"
  using check_system_resources_grown [of s]
  by (simp add: resource_kinds_low check_system_resources_spoken check_system_resources_calls
      grown_by_resource_def resource_kind_def)

theorem resource_threats_are_low_witness:
  "cpu_percent (fresh\<lparr>cpu_percent := Inr 97, disk_usage := Inr 96\<rparr>) = Inr 97 \<and>
   virtual_memory (fresh\<lparr>cpu_percent := Inr 97, disk_usage := Inr 96\<rparr>) = Inr 40 \<and>
   disk_usage (fresh\<lparr>cpu_percent := Inr 97, disk_usage := Inr 96\<rparr>) = Inr 96 \<and>
   spoken (check_system_resources (fresh\<lparr>cpu_percent := Inr 97, disk_usage := Inr 96\<rparr>)) = [] \<and>
   threat_log (check_system_resources (fresh\<lparr>cpu_percent := Inr 97, disk_usage := Inr 96\<rparr>)) =
     [\<lparr>timestamp = 0, etype = ''high_system_cpu'',
       details = ResourceDetails ''cpu_percent'' 97, severity = ''low''\<rparr>,
      \<lparr>timestamp = 1, etype = ''low_disk_space'',
       details = ResourceDetails ''disk_percent'' 96, severity = ''low''\<rparr>]"
  using resource_threats_are_low [of "fresh\<lparr>cpu_percent := Inr 97, disk_usage := Inr 96\<rparr>" 97 40 96]
  by (simp add: fresh_def resource_calls_def log_threats_def log_threat_log entry_of_def
      py_last_def log_threat_ticks log_threat_clock get_threat_severity_def high_severity_def medium_severity_def)

subsection \<open>Status\<close>

lemma newer_than_snd_Cons:
  "snd (newer_than pre w (t # ts) s) =
     (if pre t then snd (newer_than pre w ts (s\<lparr>ticks := Suc (ticks s)\<rparr>))
      else snd (newer_than pre w ts s))"
  by (simp add: datetime_now_def split: prod.split)

lemma newer_than_fst_Cons:
  "fst (newer_than pre w (t # ts) s) =
     (if pre t then
        (if timestamp t > clock s (ticks s) - w
         then t # fst (newer_than pre w ts (s\<lparr>ticks := Suc (ticks s)\<rparr>))
         else fst (newer_than pre w ts (s\<lparr>ticks := Suc (ticks s)\<rparr>)))
      else fst (newer_than pre w ts s))"
  by (simp add: datetime_now_def split: prod.split)

lemma newer_than_all_ticks:
  "snd (newer_than (\<lambda>t. True) w ts s) = s\<lparr>ticks := ticks s + length ts\<rparr>"
proof (induction ts arbitrary: s)
  case Nil
  show ?case by simp
next
  case (Cons t ts)
  show ?case
    unfolding newer_than_snd_Cons by (simp add: Cons.IH)
qed

lemma newer_than_frozen:
  "(\<And>k. clock s k = now) \<Longrightarrow>
   fst (newer_than pre w ts s) = filter (\<lambda>t. pre t \<and> timestamp t > now - w) ts"
proof (induction ts arbitrary: s)
  case Nil
  show ?case by simp
next
  case (Cons t ts)
  have "fst (newer_than pre w ts (s\<lparr>ticks := Suc (ticks s)\<rparr>)) =
          filter (\<lambda>t. pre t \<and> timestamp t > now - w) ts"
    by (rule Cons.IH) (simp add: Cons.prems)
  moreover have "fst (newer_than pre w ts s) = filter (\<lambda>t. pre t \<and> timestamp t > now - w) ts"
    by (rule Cons.IH) (simp add: Cons.prems)
  ultimately show ?case
    unfolding newer_than_fst_Cons by (simp add: Cons.prems)
qed

lemma status_result:
  assumes "cpu_percent s = Inr cpu" "virtual_memory s = Inr memory" "disk_usage s = Inr disk"
  shows "\<exists>st s'. get_system_security_status s = (Inr st, s') \<and>
     monitoring_active st = is_monitoring s \<and>
     system_health st =
       (if 90 < disk \<or> recent_high s \<noteq> [] then ''critical''
        else if 80 < cpu \<or> 85 < memory then ''warning'' else ''good'') \<and>
     recommendations st =
       (if 80 < cpu then [''High CPU usage detected''] else []) @
       (if 85 < memory then [''High memory usage detected''] else []) @
       (if 90 < disk then [''Low disk space - cleanup recommended''] else []) @
       (if recent_high s \<noteq> [] then [''Recent high-severity threats detected''] else [])"
proof -
  obtain r s1 where r: "newer_than (\<lambda>t. True) (hours 24) (threat_log s) s = (r, s1)"
    by (cases "newer_than (\<lambda>t. True) (hours 24) (threat_log s) s")
  have s1: "s1 = s\<lparr>ticks := ticks s + length (threat_log s)\<rparr>"
    using newer_than_all_ticks [of "hours 24" "threat_log s" s] r by simp
  define s2 where "s2 = s\<lparr>ticks := ticks s + length (threat_log s) + 1\<rparr>"
  have dn: "datetime_now s1 = (clock s (ticks s + length (threat_log s)), s2)"
    by (simp add: datetime_now_def s1 s2_def)
  obtain h s3 where h: "newer_than (\<lambda>t. severity t = ''high'') (hours 1) (threat_log s) s2 = (h, s3)"
    by (cases "newer_than (\<lambda>t. severity t = ''high'') (hours 1) (threat_log s) s2")
  have rh: "recent_high s = h"
    using h by (simp add: recent_high_def s2_def)
  have g: "cpu_percent s2 = Inr cpu" "virtual_memory s2 = Inr memory" "disk_usage s2 = Inr disk"
    "threat_log s2 = threat_log s"
    using assms by (simp_all add: s2_def)
  have "get_system_security_status s = (Inr (
      let status = \<lparr>monitoring_active = is_monitoring s, recent_threats = length r,
                    total_threats_logged = length (threat_log s), last_scan = clock s (ticks s + length (threat_log s)),
                    system_health = ''good'', recommendations = []\<rparr>;
          st1 = (if cpu > 80
                        then status\<lparr>system_health := ''warning'',
                               recommendations := recommendations status @ [''High CPU usage detected'']\<rparr>
                        else status);
          st2 = (if memory > 85
                        then st1\<lparr>system_health := ''warning'',
                               recommendations := recommendations st1 @ [''High memory usage detected'']\<rparr>
                        else st1);
          st3 = (if disk > 90
                        then st2\<lparr>system_health := ''critical'',
                               recommendations := recommendations st2 @ [''Low disk space - cleanup recommended'']\<rparr>
                        else st2)
      in (if h \<noteq> []
                        then st3\<lparr>system_health := ''critical'',
                               recommendations := recommendations st3 @ [''Recent high-severity threats detected'']\<rparr>
                        else st3)), s3)"
    by (simp only: get_system_security_status_def Let_def prod.case sum.case r dn g h)
  then show ?thesis
    by (simp add: rh Let_def)
qed


lemma recent_high_frozen:
  assumes "\<And>k. clock s k = now"
  shows "recent_high s =
           filter (\<lambda>t. severity t = ''high'' \<and> now - hours 1 < timestamp t) (threat_log s)"
  unfolding recent_high_def
  by (rule newer_than_frozen) (simp add: assms)

text \<open>
  C9. When the three gauges answer, the status query returns a status whose health is
  critical if disk > 90 or a high-severity entry is newer than one hour, else warning if
  cpu > 80 or memory > 85, else good; the recommendations of the triggered conditions are
  all present, in the order cpu, memory, disk, recent threats. With a clock that stands
  still at \<open>now\<close>, the recent high-severity entries are those with severity high and a
  timestamp after \<open>now\<close> minus one hour.
\<close>

theorem status_health:
  assumes "cpu_percent s = Inr cpu" "virtual_memory s = Inr memory" "disk_usage s = Inr disk"
  shows "(\<exists>st s'. get_system_security_status s = (Inr st, s') \<and>
     monitoring_active st = is_monitoring s \<and>
     system_health st =
       (if 90 < disk \<or> recent_high s \<noteq> [] then ''critical''
        else if 80 < cpu \<or> 85 < memory then ''warning'' else ''good'') \<and>
     recommendations st =
       (if 80 < cpu then [''High CPU usage detected''] else []) @
       (if 85 < memory then [''High memory usage detected''] else []) @
       (if 90 < disk then [''Low disk space - cleanup recommended''] else []) @
       (if recent_high s \<noteq> [] then [''Recent high-severity threats detected''] else [])) \<and>
     ((\<forall>k. clock s k = now) \<longrightarrow>
        recent_high s =
          filter (\<lambda>t. severity t = ''high'' \<and> now - hours 1 < timestamp t) (threat_log s))"
  using status_result [OF assms] recent_high_frozen [of s now] by blast

theorem status_health_witness:
  "cpu_percent alarmed = Inr 10 \<and> virtual_memory alarmed = Inr 40 \<and> disk_usage alarmed = Inr 96 \<and>
   clock alarmed 0 = 7200000000 \<and>
   recent_high alarmed = [\<lparr>timestamp = 7000000000, etype = ''malware_detected'',
                     details = ResourceDetails ''cpu_percent'' 0, severity = ''high''\<rparr>] \<and>
   fst (get_system_security_status alarmed) =
     Inr \<lparr>monitoring_active = False, recent_threats = 2, total_threats_logged = 2,
          last_scan = 7200000000, system_health = ''critical'',
          recommendations = [''Low disk space - cleanup recommended'',
                             ''Recent high-severity threats detected'']\<rparr>"
  using status_health [of alarmed 10 40 96 7200000000]
  by (simp add: alarmed_def fresh_def get_system_security_status_def datetime_now_def hours_def Let_def)

subsection \<open>Monitoring loop\<close>

lemma sleep_max_value: "sleep_max = 9223372036"
  by (simp add: sleep_max_def)

lemma sleep_returns:
  "0 \<le> i \<Longrightarrow> i \<le> sleep_max \<Longrightarrow> sleep i s = (None, s\<lparr>slept := slept s @ [i]\<rparr>)"
  by (simp add: sleep_def sleep_max_value)

lemma sleep_raises:
  "i < 0 \<or> sleep_max < i \<Longrightarrow> \<exists>e. sleep i s = (Some e, s)"
  by (auto simp add: sleep_def)

lemma check_system_resources_flag [simp]:
  "is_monitoring (check_system_resources s) = is_monitoring s"
  by (simp add: check_system_resources_def Let_def split: sum.split option.split)



lemma loop_cycle_sleeps:
  assumes "0 \<le> interval" and "interval \<le> sleep_max" and "is_monitoring s"
  shows "loop_cycle scan net interval s =
           (True,
            (monitor_network_connections net
               (check_system_resources (scan_running_processes scan s)))
              \<lparr>slept := slept (monitor_network_connections net
                  (check_system_resources (scan_running_processes scan s))) @ [interval]\<rparr>)"
  using assms by (simp add: loop_cycle_def loop_body_def try_block_def sleep_returns)

lemma loop_cycle_dies:
  assumes "interval < 0 \<or> sleep_max < interval" and "is_monitoring s"
  shows "fst (loop_cycle scan net interval s) = False"
proof -
  let ?c = "monitor_network_connections net
              (check_system_resources (scan_running_processes scan s))"
  obtain e where a: "sleep interval ?c = (Some e, ?c)"
    using sleep_raises [OF assms(1)] by blast
  obtain e' where b: "sleep interval (log_message ''ERROR'' (MonitoringError e) ?c) =
      (Some e', log_message ''ERROR'' (MonitoringError e) ?c)"
    using sleep_raises [OF assms(1)] by blast
  show ?thesis
    using assms(2) by (simp add: loop_cycle_def loop_body_def try_block_def a b)
qed

lemma loop_cycle_running:
  "is_monitoring s \<Longrightarrow> fst (loop_cycle scan net 300 s) = True"
  by (simp add: loop_cycle_sleeps sleep_max_value)






lemma start_monitoring_running:
  "is_monitoring s \<Longrightarrow>
   start_monitoring interval s =
     log_message ''INFO'' (Text ''Security monitoring is already running'') s"
  by (simp add: start_monitoring_def)

lemma start_monitoring_running_loops:
  "is_monitoring s \<Longrightarrow>
   loops (start_monitoring interval s) = loops s \<and> is_monitoring (start_monitoring interval s)"
  by (simp add: start_monitoring_running)

lemma start_monitoring_stopped:
  "\<not> is_monitoring s \<Longrightarrow>
   loops (start_monitoring interval s) = loops s @ [interval] \<and>
   is_monitoring (start_monitoring interval s)"
  by (simp add: start_monitoring_def speak_def log_message_def Let_def)

lemma stop_monitoring_fields:
  "\<not> is_monitoring (stop_monitoring s)"
  "loops (stop_monitoring s) = loops s"
  "cpu_percent (stop_monitoring s) = cpu_percent s"
  "virtual_memory (stop_monitoring s) = virtual_memory s"
  "disk_usage (stop_monitoring s) = disk_usage s"
  by (simp_all add: stop_monitoring_def speak_def log_message_def Let_def)

lemma stop_then_status:
  assumes "cpu_percent s = Inr cpu" "virtual_memory s = Inr memory" "disk_usage s = Inr disk"
  shows "\<exists>st s'. get_system_security_status (stop_monitoring s) = (Inr st, s') \<and>
           monitoring_active st = False"
proof -
  have "cpu_percent (stop_monitoring s) = Inr cpu" "virtual_memory (stop_monitoring s) = Inr memory"
    "disk_usage (stop_monitoring s) = Inr disk"
    using assms by (simp_all add: stop_monitoring_fields)
  from status_result [OF this] show ?thesis
    by (auto simp: stop_monitoring_fields)
qed

text \<open>
  C6. Evaluation of start and stop on a fresh handler. A second start while the flag is
  set adds no thread, and stop clears the flag. But start, stop, start, with no loop test
  in between, leaves two threads in \<open>_monitoring_loop\<close>: the flag is set again before the
  first thread tests it, so both stay in the loop at their next test and after it.
\<close>

theorem restart_leaves_two_loops:
  "loops (run scan net [Start 300] fresh) = [300] \<and>
   loops (run scan net [Start 300, Start 300] fresh) = [300] \<and>
   \<not> is_monitoring (run scan net [Start 300, Stop] fresh) \<and>
   loops (run scan net [Start 300, Stop, Start 300] fresh) = [300, 300] \<and>
   is_monitoring (run scan net [Start 300, Stop, Start 300] fresh) \<and>
   fst (loop_cycle scan net 300 (run scan net [Start 300, Stop, Start 300] fresh)) = True \<and>
   loops (run (quiet_scan 0) (quiet_scan 0)
            [Start 300, Stop, Start 300, Cycle 0, Cycle 1, Cycle 0, Cycle 1] fresh) = [300, 300]"
proof -
  have a: "loops (run scan net [Start 300, Stop, Start 300] fresh) = [300, 300] \<and>
           is_monitoring (run scan net [Start 300, Stop, Start 300] fresh)"
    by (simp add: run_def fresh_def start_monitoring_def stop_monitoring_def speak_def
        log_message_def Let_def)
  have b: "fst (loop_cycle scan net 300 (run scan net [Start 300, Stop, Start 300] fresh)) = True"
    by (rule loop_cycle_running) (simp add: a)
  have c: "loops (run scan net [Start 300] fresh) = [300] \<and>
           loops (run scan net [Start 300, Start 300] fresh) = [300] \<and>
           \<not> is_monitoring (run scan net [Start 300, Stop] fresh)"
    by (simp add: run_def fresh_def start_monitoring_def stop_monitoring_def speak_def
        log_message_def Let_def)
  have d: "loops (run (quiet_scan 0) (quiet_scan 0)
            [Start 300, Stop, Start 300, Cycle 0, Cycle 1, Cycle 0, Cycle 1] fresh) = [300, 300]"
    by (simp add: run_def fresh_def start_monitoring_def stop_monitoring_def speak_def
        log_message_def Let_def loop_cycle_def loop_body_def try_block_def quiet_scan_def
        scan_running_processes_def monitor_network_connections_def sleep_def sleep_max_value
        check_system_resources_def)
  from a b c d show ?thesis by simp
qed

lemma stop_cycle_start_one_loop:
  "loops (run (quiet_scan 0) (quiet_scan 0) [Start 300, Stop, Cycle 0, Start 300] fresh) = [300]"
  by (simp add: run_def fresh_def start_monitoring_def stop_monitoring_def speak_def
      log_message_def Let_def loop_cycle_def)

subsection \<open>File system\<close>

lemma follow_entry:
  "f p = None \<Longrightarrow> follow n f p = None"
  "f p = Some Directory \<Longrightarrow> follow n f p = Some Directory"
  "f p = Some (RegularFile c) \<Longrightarrow> follow n f p = Some (RegularFile c)"
  by (cases n; simp)+

lemma follow_not_link: "follow n f p \<noteq> Some (Symlink t)"
  by (induction n arbitrary: p) (simp_all split: option.split node.split)

lemma stat_entry:
  "fs s p = None \<Longrightarrow> stat s p = None"
  "fs s p = Some Directory \<Longrightarrow> stat s p = Some Directory"
  "fs s p = Some (RegularFile c) \<Longrightarrow> stat s p = Some (RegularFile c)"
  by (simp_all add: stat_def follow_entry)

lemma stat_not_link: "stat s p \<noteq> Some (Symlink t)"
  by (simp add: stat_def follow_not_link)


lemma exists_entry:
  "fs s p = None \<Longrightarrow> \<not> exists s p"
  "fs s p = Some Directory \<Longrightarrow> exists s p"
  "fs s p = Some (RegularFile c) \<Longrightarrow> exists s p"
  by (simp_all add: exists_def stat_entry)


lemma exists_lexists: "exists s p \<Longrightarrow> lexists s p"
  by (cases "fs s p") (simp_all add: exists_def lexists_def stat_entry)

lemma fs_update_entry [simp]:
  "lexists (s\<lparr>fs := f\<rparr>) p \<longleftrightarrow> f p \<noteq> None"
  "islink (s\<lparr>fs := f\<rparr>) p \<longleftrightarrow> (case f p of Some (Symlink t) \<Rightarrow> True | _ \<Rightarrow> False)"
  by (simp_all add: lexists_def islink_def)


subsection \<open>Quarantine\<close>

lemma quarantine_dir_text [simp]: "join DATA_DIR ''quarantine'' = ''data/quarantine''"
  by (simp add: join_def DATA_DIR_def)

lemma split_data [simp]:
  "split ''data/quarantine'' = (''data'', ''quarantine'')" "split ''data'' = ([], ''data'')"
  by (simp_all add: split_def basename_def rstrip_slash_def)

lemma dirname_data [simp]: "dirname ''data/quarantine'' = ''data''" "dirname ''data'' = []"
  by (simp_all add: dirname_def)












lemma speak_fields [simp]:
  "is_monitoring (speak t s) = is_monitoring s"
  "threat_log (speak t s) = threat_log s"
  "loops (speak t s) = loops s"
  "clock (speak t s) = clock s"
  "ticks (speak t s) = ticks s"
  "fs (speak t s) = fs s"
  "spoken (speak t s) = spoken s @ [t]"
  by (simp_all add: speak_def log_message_def)









subsection \<open>Missing paths\<close>

text \<open>
  C3 (as amended). For a path that does not exist, the scan returns the error result
  \<open>File not found\<close> and quarantine returns \<open>False\<close>; neither changes the state.
\<close>

theorem missing_path:
  assumes "\<not> exists s path"
  shows "scan_file_for_threats P path s = (Inl ''File not found'', s) \<and>
         quarantine_file P path s = (False, s)"
  using assms by (simp add: scan_file_for_threats_def quarantine_file_def)

theorem missing_path_witness:
  "\<not> exists disk1 ''in/gone.txt'' \<and> fs disk1 ''in/gone.txt'' = None \<and>
   scan_file_for_threats demo ''in/gone.txt'' disk1 = (Inl ''File not found'', disk1) \<and>
   quarantine_file demo ''in/gone.txt'' disk1 = (False, disk1)"
proof -
  have a: "fs disk1 ''in/gone.txt'' = None" by (simp add: disk1_def)
  from missing_path [OF exists_entry(1) [OF a], of demo] show ?thesis
    using exists_entry(1) [OF a] a by simp
qed

text \<open>
  C3 (as stated). The value that quarantine returns for a missing path is the value it
  returns when the file exists and the quarantine directory cannot be created: it names
  no kind of error.
\<close>

theorem quarantine_failure_value_counterexample:
  "fs blocked ''in/gone.txt'' = None \<and>
   fs blocked ''in/a.EXE'' = Some (RegularFile [1, 2, 3]) \<and>
   fst (quarantine_file demo ''in/gone.txt'' blocked) = False \<and>
   fst (quarantine_file demo ''in/a.EXE'' blocked) = False \<and>
   fst (quarantine_file demo ''in/gone.txt'' blocked) = fst (quarantine_file demo ''in/a.EXE'' blocked)"
  by code_simp

subsection \<open>File scanner\<close>

lemma read_blocks_all:
  "0 < block_size \<Longrightarrow> read_blocks block_size rest acc = foldl count_byte acc rest"
proof (induction block_size rest acc rule: read_blocks.induct)
  case (1 block_size rest acc)
  show ?case
  proof (cases "take block_size rest = []")
    case True
    with 1(2) have "rest = []" by simp
    then show ?thesis by (subst read_blocks.simps) simp
  next
    case False
    have "read_blocks block_size rest acc =
            read_blocks block_size (drop block_size rest) (foldl count_byte acc (take block_size rest))"
      using False by (subst read_blocks.simps) (simp add: Let_def)
    also have "\<dots> = foldl count_byte (foldl count_byte acc (take block_size rest)) (drop block_size rest)"
      using 1(1) [OF refl False 1(2)] .
    also have "\<dots> = foldl count_byte acc (take block_size rest @ drop block_size rest)"
      by (simp only: foldl_append)
    finally show ?thesis by simp
  qed
qed

lemma count_replicate:
  "foldl count_byte ([(b, k)], k) (replicate n b) = ([(b, k + n)], k + n)"
  by (induction n arbitrary: k) (simp_all add: count_byte_def)

lemma count_replicate0:
  "0 < n \<Longrightarrow> foldl count_byte ([], 0) (replicate n b) = ([(b, n)], n)"
  using count_replicate [of b 1 "n - 1"]
  by (cases n) (simp_all add: count_byte_def)

lemma entropy_of_replicate:
  "0 < n \<Longrightarrow>
   entropy_of P 1024 (replicate n b) =
     (if fl_div P n n > 0 then fl_sub P 0 (fl_mul P (fl_div P n n) (fl_log2 P (fl_div P n n))) else 0)"
  by (simp add: entropy_of_def read_blocks_all count_replicate0 entropy_step_def Let_def)



lemma log_threat_low_log:
  "get_threat_severity t = ''low'' \<Longrightarrow>
   threat_log (log_threat t d s) =
     py_last 1000 (threat_log s @ [\<lparr>timestamp = clock s (ticks s), etype = t, details = d, severity = ''low''\<rparr>])"
  by (simp add: log_threat_log entry_of_def)

lemma scan_unfolded:
  assumes "stat s path = Some (RegularFile c)"
  shows "scan_file_for_threats P path s =
    (let r1 = \<lparr>file_path = path, file_size = length c, scan_time = clock s (ticks s),
                threats_found = [], is_safe = True, file_hash = Some (hexdigest P ''sha256'' c)\<rparr>;
         file_ext = lower (snd (splitext path));
         r2 = (if file_ext \<in> set suspicious_extensions
               then add_threat ''suspicious_extension'' (DangerousExtension file_ext) r1 else r1);
         r3 = (if file_size r2 > 100 * 1024 * 1024
               then add_threat ''large_file_size'' (UnusuallyLarge (file_size r2)) r2 else r2);
         r4 = (if entropy_of P 1024 c > 7.5
               then add_threat ''high_entropy'' (HighEntropy (entropy_of P 1024 c)) r3 else r3);
         r5 = (if lower (hexdigest P ''sha256'' c) \<in> set known_bad_hashes
               then add_threat ''known_malware_hash'' KnownMalware r4 else r4);
         result = r5\<lparr>is_safe := (length (threats_found r5) = 0)\<rparr>;
         s1 = s\<lparr>ticks := Suc (ticks s)\<rparr>;
         s5 = (if \<not> is_safe result
               then log_threat ''file_threat_detected'' (ScanDetails result) s1 else s1)
     in (Inr result, log_message ''INFO'' (ScanCompleted path (is_safe result)) s5))"
proof -
  have a: "exists s path" "getsize P s path = Inr (length c)"
    using assms by (simp_all add: exists_def getsize_def)
  have t: "stat (s\<lparr>ticks := Suc (ticks s)\<rparr>) path = Some (RegularFile c)"
    using assms by (simp add: stat_def)
  have b: "datetime_now s = (clock s (ticks s), s\<lparr>ticks := Suc (ticks s)\<rparr>)"
    by (simp add: datetime_now_def)
  have c: "calculate_file_hash P path (s\<lparr>ticks := Suc (ticks s)\<rparr>) =
             (Some (hexdigest P ''sha256'' c), s\<lparr>ticks := Suc (ticks s)\<rparr>)"
    "calculate_file_entropy P path 1024 (s\<lparr>ticks := Suc (ticks s)\<rparr>) =
             (entropy_of P 1024 c, s\<lparr>ticks := Suc (ticks s)\<rparr>)"
    using t by (simp_all add: calculate_file_hash_def calculate_file_entropy_def open_rb_def)
  have d: "file_hash (add_threat t x r) = file_hash r" "file_size (add_threat t x r) = file_size r" for t x r
    by (simp_all add: add_threat_def)
  have e: "check_hash_reputation (Some h) s0 = (lower h \<in> set known_bad_hashes, s0)" for h s0
    by (simp add: check_hash_reputation_def)
  show ?thesis
    unfolding scan_file_for_threats_def
    by (simp only: a b c d e Let_def prod.case sum.case if_True if_False not_True_eq_False
        scan_result.simps if_distrib [of file_hash] if_distrib [of file_size] if_cancel)
qed


lemma add_threat_fields [simp]:
  "threats_found (add_threat t x r) = threats_found r @ [\<lparr>ftype = t, description = x\<rparr>]"
  "file_size (add_threat t x r) = file_size r"
  "file_hash (add_threat t x r) = file_hash r"
  by (simp_all add: add_threat_def)

lemma file_threat_low: "get_threat_severity ''file_threat_detected'' = ''low''"
  by (simp add: get_threat_severity_def high_severity_def medium_severity_def)

text \<open>
  C2. The scan of a regular file returns a result whose findings are those of the four
  checks, each present or absent on its own condition and in the order extension, size,
  entropy, digest; \<open>is_safe\<close> holds exactly when there is no finding; when it does not
  hold, one \<open>file_threat_detected\<close> entry with the result is appended to the threat log,
  and otherwise the log is unchanged. For extension \<open>.exe\<close>, 5 MiB, entropy 7.9 and a
  digest in the known-bad set, the findings are the three named ones.
\<close>

theorem scan_findings:
  assumes "stat s path = Some (RegularFile c)"
  shows "\<exists>r s'. scan_file_for_threats P path s = (Inr r, s') \<and>
     map ftype (threats_found r) =
       (if lower (snd (splitext path)) \<in> set suspicious_extensions
        then [''suspicious_extension''] else []) @
       (if 100 * 1024 * 1024 < length c then [''large_file_size''] else []) @
       (if 7.5 < entropy_of P 1024 c then [''high_entropy''] else []) @
       (if lower (hexdigest P ''sha256'' c) \<in> set known_bad_hashes
        then [''known_malware_hash''] else []) \<and>
     is_safe r = (threats_found r = []) \<and>
     threat_log s' =
       (if is_safe r then threat_log s
        else py_last 1000 (threat_log s @
               [\<lparr>timestamp = clock s (Suc (ticks s)), etype = ''file_threat_detected'',
                 details = ScanDetails r, severity = ''low''\<rparr>])) \<and>
     (lower (snd (splitext path)) = ''.exe'' \<and> length c = 5 * 1024 * 1024 \<and>
      entropy_of P 1024 c = 79 / 10 \<and>
      lower (hexdigest P ''sha256'' c) \<in> set known_bad_hashes \<longrightarrow>
        \<not> is_safe r \<and>
        map ftype (threats_found r) =
          [''suspicious_extension'', ''high_entropy'', ''known_malware_hash''])"
  unfolding scan_unfolded [OF assms]
  by (simp add: Let_def log_threat_low_log file_threat_low suspicious_extensions_def)

theorem scan_findings_witness:
  "stat packed ''in/setup.EXE'' = Some (RegularFile (replicate (5 * 1024 * 1024) 77)) \<and>
   fs packed ''in/setup.EXE'' = Some (RegularFile (replicate (5 * 1024 * 1024) 77)) \<and>
   lower (snd (splitext ''in/setup.EXE'')) = ''.exe'' \<and>
   length (replicate (5 * 1024 * 1024) (77 :: byte)) = 5 * 1024 * 1024 \<and>
   entropy_of demo 1024 (replicate (5 * 1024 * 1024) 77) = 79 / 10 \<and>
   lower (hexdigest demo ''sha256'' (replicate (5 * 1024 * 1024) 77)) \<in> set known_bad_hashes \<and>
   (case fst (scan_file_for_threats demo ''in/setup.EXE'' packed) of
      Inl e \<Rightarrow> False
    | Inr r \<Rightarrow> \<not> is_safe r \<and>
        map ftype (threats_found r) =
          [''suspicious_extension'', ''high_entropy'', ''known_malware_hash'']) \<and>
   map etype (threat_log (snd (scan_file_for_threats demo ''in/setup.EXE'' packed))) =
     [''file_threat_detected'']"
proof -
  have f0: "fs packed ''in/setup.EXE'' = Some (RegularFile (replicate (5 * 1024 * 1024) 77))"
    by (simp add: packed_def)
  have f: "stat packed ''in/setup.EXE'' = Some (RegularFile (replicate (5 * 1024 * 1024) 77))"
    by (rule stat_entry) (rule f0)
  have x: "lower (snd (splitext ''in/setup.EXE'')) = ''.exe''"
    by (simp add: splitext_def basename_def lower_def lower_char_def Let_def)
  have e: "entropy_of demo 1024 (replicate (5 * 1024 * 1024) 77) = 79 / 10"
    by (simp add: entropy_of_replicate demo_def)
  have h: "lower (hexdigest demo ''sha256'' (replicate (5 * 1024 * 1024) 77)) \<in> set known_bad_hashes"
    by (simp add: demo_def known_bad_hashes_def lower_def lower_char_def)
  have t: "threat_log packed = []" by (simp add: packed_def fresh_def)
  from scan_findings [OF f, of demo] x e h t show ?thesis
    by (auto simp: f f0 py_last_def)
qed

subsection \<open>Entropy\<close>

















subsection \<open>Binary64 rounding\<close>

lemma rne_near:
  assumes "\<bar>y - of_int m\<bar> < 1 / 2"
  shows "rne y = m"
proof (cases "of_int m \<le> y")
  case True
  with assms have "\<lfloor>y\<rfloor> = m" by (intro floor_unique) auto
  with assms True show ?thesis by (simp add: rne_def Let_def)
next
  case False
  with assms have f: "\<lfloor>y\<rfloor> = m - 1" by (intro floor_unique) auto
  with assms False show ?thesis by (auto simp add: rne_def Let_def)
qed

lemma rne_of_int [simp]: "rne (of_int m) = m"
  by (rule rne_near) simp





























lemma ln2_pos: "0 < ln (2::real)"
  by simp









lemma rnd_zero [simp]: "rnd 0 = 0"
  by (simp add: rnd_def)





















end
